theory Spec2Isabelle
  imports Complex_Main
begin

section \<open>Values of the Python program\<close>

text \<open>
  The first line of the source asks for \<open>python3\<close>, and the model follows Python 3.
  The attribute \<open>goal_idx\<close> of a \<open>Mission\<close> holds a Python number. The constructor stores
  the integer \<open>0\<close>, the completion branch of \<open>execute\<close> stores the integer \<open>0\<close> again, and
  the abort branch stores the literal \<open>0.\<close>, a float. Both kinds of number are therefore
  kept apart. Coordinates, headings and tolerances are floats in the program; they are
  modelled as exact reals (no rounding, no overflow, no NaN).
\<close>

datatype pynum = PyInt int | PyFloat real

datatype error = TypeError | KeyError

datatype outcome = Completed | Aborted | Next_Goal

fun num_of :: "pynum \<Rightarrow> real" where
  "num_of (PyInt i) = real_of_int i"
| "num_of (PyFloat x) = x"

text \<open>Python compares an integer with a float by numeric value.\<close>

definition py_ge :: "pynum \<Rightarrow> pynum \<Rightarrow> bool" where
  "py_ge a b = (num_of b \<le> num_of a)"

definition py_eq :: "pynum \<Rightarrow> pynum \<Rightarrow> bool" where
  "py_eq a b = (num_of a = num_of b)"

text \<open>Addition stays an integer only when both operands are integers.\<close>

fun py_add :: "pynum \<Rightarrow> pynum \<Rightarrow> pynum" where
  "py_add (PyInt a) (PyInt b) = PyInt (a + b)"
| "py_add (PyInt a) (PyFloat y) = PyFloat (real_of_int a + y)"
| "py_add (PyFloat x) b = PyFloat (x + num_of b)"

text \<open>
  The goals of one mission are an ordered mapping from goal name to goal (the
  configuration is loaded as an ordered dictionary), kept as an association list in the
  order of the configuration file. Subscripting the mapping by a name raises \<open>KeyError\<close>
  when the name is absent.

  In Python 3 the method \<open>keys()\<close> of a dictionary returns a view of the names. \<open>len\<close>
  counts the names of a view, but a view cannot be subscripted: \<open>keys()[k]\<close> raises
  \<open>TypeError\<close> whatever the subscript \<open>k\<close> is.
\<close>

record goal =
  x_m :: real
  y_m :: real
  yaw_rad :: real

type_synonym goals = "(string \<times> goal) list"

datatype dict_keys = Dict_keys "string list"

definition keys :: "goals \<Rightarrow> dict_keys" where
  "keys md = Dict_keys (map fst md)"

fun len :: "dict_keys \<Rightarrow> nat" where
  "len (Dict_keys names) = length names"

fun keys_getitem :: "dict_keys \<Rightarrow> pynum \<Rightarrow> error + string" where
  "keys_getitem (Dict_keys names) k = Inl TypeError"

definition dict_getitem :: "goals \<Rightarrow> string \<Rightarrow> error + goal" where
  "dict_getitem md name = (case map_of md name of None \<Rightarrow> Inl KeyError | Some g \<Rightarrow> Inr g)"

section \<open>Messages and the ROS environment\<close>

text \<open>
  A \<open>PoseStamped\<close> message. The orientation quaternion is produced and decomposed by the
  library \<open>tf.transformations\<close>, which is not part of the repository: the field \<open>yaw\<close> is
  the heading handed to \<open>quaternion_from_euler(0, 0, yaw)\<close> for an outgoing message and
  the third component of \<open>euler_from_quaternion\<close> for an incoming one. The time stamp of
  the header is left out; nothing in \<open>Mission\<close> reads it.
\<close>

record pose_stamped =
  frame_id :: string
  position_x :: real
  position_y :: real
  position_z :: real
  yaw :: real

text \<open>
  What \<open>Mission\<close> sees of ROS: the messages published so far on
  \<open>/move_base_simple/goal\<close> (oldest first), the batches of \<open>/base_pose_measured\<close>
  messages that will be delivered during each coming call of \<open>rospy.sleep(1)\<close>, the
  number of such calls completed, and the number of calls of
  \<open>reachedGoalWithTolerance\<close> made.
\<close>

record ros =
  published :: "pose_stamped list"
  incoming :: "pose_stamped list list"
  slept :: nat
  checks :: nat

section \<open>The class Mission\<close>

text \<open>
  An attribute that has not been assigned yet is \<open>None\<close>: reading it raises
  \<open>AttributeError\<close> in the program.
\<close>

record mission =
  mission_data :: goals
  goal_idx :: pynum
  distance_to_goal_tolerance_m :: real
  angle_to_goal_tolerance_rad :: real
  goal_x_m :: "real option"
  goal_y_m :: "real option"
  goal_yaw_rad :: "real option"
  estimated_x_m :: "real option"
  estimated_y_m :: "real option"
  estimated_yaw_rad :: "real option"

definition Mission_init :: "goals \<Rightarrow> mission" where
  "Mission_init md =
     \<lparr>mission_data = md, goal_idx = PyInt 0,
      distance_to_goal_tolerance_m = 3 / 10, angle_to_goal_tolerance_rad = 7 / 10,
      goal_x_m = None, goal_y_m = None, goal_yaw_rad = None,
      estimated_x_m = None, estimated_y_m = None, estimated_yaw_rad = None\<rparr>"

definition setGoal :: "real \<Rightarrow> real \<Rightarrow> real \<Rightarrow> mission \<times> ros \<Rightarrow> mission \<times> ros" where
  "setGoal x y heading sr =
     (case sr of (s, r) \<Rightarrow>
        (s\<lparr>goal_x_m := Some x, goal_y_m := Some y, goal_yaw_rad := Some heading\<rparr>,
         r\<lparr>published := published r @
              [\<lparr>frame_id = ''world'', position_x = x, position_y = y, position_z = 0,
                yaw = heading\<rparr>]\<rparr>))"

definition poseCallback :: "pose_stamped \<Rightarrow> mission \<Rightarrow> mission" where
  "poseCallback pose_stamped_msg s =
     s\<lparr>estimated_x_m := Some (position_x pose_stamped_msg),
       estimated_y_m := Some (position_y pose_stamped_msg),
       estimated_yaw_rad := Some (yaw pose_stamped_msg)\<rparr>"

text \<open>
  The body of the \<open>try\<close> reads six attributes; when one of them is missing the bare
  \<open>except\<close> catches the \<open>AttributeError\<close> and the result is \<open>False\<close>.
\<close>

definition reachedGoalWithTolerance :: "mission \<Rightarrow> bool" where
  "reachedGoalWithTolerance s =
     (case (goal_x_m s, estimated_x_m s, goal_y_m s, estimated_y_m s,
            goal_yaw_rad s, estimated_yaw_rad s) of
        (Some gx, Some ex, Some gy, Some ey, Some gyaw, Some eyaw) \<Rightarrow>
          (let distance_to_goal = sqrt ((gx - ex)\<^sup>2 + (gy - ey)\<^sup>2);
               angle_to_goal = \<bar>gyaw - eyaw\<bar>;
               distance_to_goal_satisfied = (distance_to_goal \<le> distance_to_goal_tolerance_m s);
               angle_to_goal_satisfied = (angle_to_goal \<le> angle_to_goal_tolerance_rad s)
           in distance_to_goal_satisfied \<and> angle_to_goal_satisfied)
      | _ \<Rightarrow> False)"

text \<open>
  \<open>rospy.sleep(1)\<close>: the subscriber's callback runs for every message of the next batch,
  in order, while the caller is suspended.
\<close>

definition rospy_sleep :: "mission \<times> ros \<Rightarrow> mission \<times> ros" where
  "rospy_sleep sr =
     (case sr of (s, r) \<Rightarrow>
        (case incoming r of
           [] \<Rightarrow> (s, r\<lparr>slept := Suc (slept r)\<rparr>)
         | batch # rest \<Rightarrow> (fold poseCallback batch s, r\<lparr>incoming := rest, slept := Suc (slept r)\<rparr>)))"

text \<open>
  The \<open>while countdown_s:\<close> loop of \<open>execute\<close>. The first component of the result is
  the outcome returned from inside the loop, or \<open>None\<close> when the loop ran out.
\<close>

fun wait_loop :: "nat \<Rightarrow> mission \<times> ros \<Rightarrow> outcome option \<times> mission \<times> ros" where
  "wait_loop 0 sr = (None, sr)"
| "wait_loop (Suc countdown_s) sr =
     (case sr of (s, r) \<Rightarrow>
        (if reachedGoalWithTolerance s
         then (Some Next_Goal, s\<lparr>goal_idx := py_add (goal_idx s) (PyInt 1)\<rparr>,
               r\<lparr>checks := Suc (checks r)\<rparr>)
         else wait_loop countdown_s (rospy_sleep (s, r\<lparr>checks := Suc (checks r)\<rparr>))))"

text \<open>
  Lines 61 and 62 of the source: the name at the current index, then its goal. The
  subscript of the key view raises before any goal is looked up.
\<close>

definition current_goal :: "mission \<Rightarrow> error + goal" where
  "current_goal s =
     (case keys_getitem (keys (mission_data s)) (goal_idx s) of
        Inl e \<Rightarrow> Inl e
      | Inr current_goal_name \<Rightarrow> dict_getitem (mission_data s) current_goal_name)"

text \<open>
  One activation. The result is the outcome, or the exception that left \<open>execute\<close>,
  together with the object and the environment as they are at that moment.
\<close>

definition execute :: "mission \<Rightarrow> ros \<Rightarrow> (error + outcome) \<times> mission \<times> ros" where
  "execute s r =
     (if py_ge (goal_idx s) (PyInt (int (len (keys (mission_data s)))))
      then (Inr Completed, s\<lparr>goal_idx := PyInt 0\<rparr>, r)
      else
        (case current_goal s of
           Inl e \<Rightarrow> (Inl e, s, r)
         | Inr g \<Rightarrow>
             (case wait_loop 4 (setGoal (x_m g) (y_m g) (yaw_rad g) (s, r)) of
                (Some returned, s1, r1) \<Rightarrow> (Inr returned, s1, r1)
              | (None, s1, r1) \<Rightarrow>
                  (if py_eq (goal_idx s1) (PyInt 0)
                   then (Inr Aborted, s1\<lparr>goal_idx := PyFloat 0\<rparr>, r1)
                   else (Inr Next_Goal, s1\<lparr>goal_idx := py_add (goal_idx s1) (PyInt 1)\<rparr>, r1)))))"

text \<open>The three parts of the result of an activation.\<close>

definition result_of :: "(error + outcome) \<times> mission \<times> ros \<Rightarrow> error + outcome" where
  "result_of res = fst res"

definition mission_of :: "(error + outcome) \<times> mission \<times> ros \<Rightarrow> mission" where
  "mission_of res = fst (snd res)"

definition ros_of :: "(error + outcome) \<times> mission \<times> ros \<Rightarrow> ros" where
  "ros_of res = snd (snd res)"

text \<open>
  The object as it is when \<open>k\<close> sleeps of the current activation have passed: every
  message of the first \<open>k\<close> batches has gone through the callback.
\<close>

definition heard :: "nat \<Rightarrow> ros \<Rightarrow> mission \<Rightarrow> mission" where
  "heard k r s = fold poseCallback (concat (take k (incoming r))) s"

text \<open>
  The arrival condition in the words of the specification: a pose estimate has been
  received, its Euclidean distance to the position of the goal is at most the distance
  tolerance, and its absolute heading difference to the heading of the goal is at most
  the angle tolerance.
\<close>

definition arrival_condition :: "goal \<Rightarrow> mission \<Rightarrow> bool" where
  "arrival_condition g s =
     (case (estimated_x_m s, estimated_y_m s, estimated_yaw_rad s) of
        (Some ex, Some ey, Some eyaw) \<Rightarrow>
          sqrt ((x_m g - ex)\<^sup>2 + (y_m g - ey)\<^sup>2) \<le> distance_to_goal_tolerance_m s \<and>
          \<bar>yaw_rad g - eyaw\<bar> \<le> angle_to_goal_tolerance_rad s
      | _ \<Rightarrow> False)"

text \<open>
  The goal at a position of the mission, in the words of the specification ("select
  the goal at current index").
\<close>

definition goal_at :: "goals \<Rightarrow> nat \<Rightarrow> goal" where
  "goal_at md i = snd (md ! i)"

text \<open>The message that \<open>setGoal\<close> publishes for a goal.\<close>

definition goal_msg :: "goal \<Rightarrow> pose_stamped" where
  "goal_msg g =
     \<lparr>frame_id = ''world'', position_x = x_m g, position_y = y_m g, position_z = 0,
      yaw = yaw_rad g\<rparr>"


text \<open>
  The scenario of the specification: two goals, \<open>G0\<close> at the origin and \<open>G1\<close> five
  metres ahead, a feedback message that reports the origin, an environment in which no
  feedback ever arrives, and one in which the origin is reported during the first sleep.
\<close>

definition scenario_goals :: goals where
  "scenario_goals =
     [(''G0'', \<lparr>x_m = 0, y_m = 0, yaw_rad = 0\<rparr>), (''G1'', \<lparr>x_m = 5, y_m = 0, yaw_rad = 0\<rparr>)]"

definition pose_origin :: pose_stamped where
  "pose_origin =
     \<lparr>frame_id = ''world'', position_x = 0, position_y = 0, position_z = 0, yaw = 0\<rparr>"

definition silent :: ros where
  "silent = \<lparr>published = [], incoming = [], slept = 0, checks = 0\<rparr>"

definition origin_in_first_sleep :: ros where
  "origin_in_first_sleep =
     \<lparr>published = [], incoming = [pose_origin] # [], slept = 0, checks = 0\<rparr>"

section \<open>The countdown, once a goal is set\<close>

text \<open>
  What lines 64 to 76 do for a goal \<open>g\<close>: the arrival check of each tick is the arrival
  condition for \<open>g\<close> on the object as the callbacks have left it by then; the loop
  returns at the first tick where it holds and runs out after four ticks otherwise.
\<close>

lemma sqrt_le_iff_sq: "0 \<le> t \<Longrightarrow> (sqrt a \<le> t) = (a \<le> t\<^sup>2)"
  by (metis abs_of_nonneg real_sqrt_abs real_sqrt_le_iff)

lemma heard_0 [simp]: "heard 0 r s = s"
  by (simp add: heard_def)

lemma goal_idx_fold_poseCallback [simp]: "goal_idx (fold poseCallback ms s) = goal_idx s"
  by (induction ms arbitrary: s) (simp_all add: poseCallback_def)

lemma goal_idx_heard: "goal_idx (heard k r s) = goal_idx s"
  by (simp add: heard_def)

lemma rospy_sleep_eq:
  "rospy_sleep (s, r) =
     (heard 1 r s, r\<lparr>incoming := drop 1 (incoming r), slept := Suc (slept r)\<rparr>)"
  by (cases "incoming r") (simp_all add: rospy_sleep_def heard_def)

lemma heard_Suc:
  "heard (Suc k) r s = heard k (r\<lparr>incoming := drop 1 (incoming r)\<rparr>) (heard 1 r s)"
  by (cases "incoming r") (simp_all add: heard_def)

lemma heard_checks [simp]: "heard k (r\<lparr>checks := c\<rparr>) s = heard k r s"
  by (simp add: heard_def)

lemma heard_slept [simp]: "heard k (r\<lparr>slept := c\<rparr>) s = heard k r s"
  by (simp add: heard_def)

lemma wait_loop_none:
  "(\<forall>k<n. \<not> reachedGoalWithTolerance (heard k r s)) \<Longrightarrow>
   wait_loop n (s, r) =
     (None, heard n r s,
      r\<lparr>incoming := drop n (incoming r), slept := slept r + n, checks := checks r + n\<rparr>)"
proof (induction n arbitrary: s r)
  case 0
  then show ?case by simp
next
  case (Suc n)
  have first: "\<not> reachedGoalWithTolerance s"
    using Suc.prems by (metis heard_0 zero_less_Suc)
  let ?r1 = "r\<lparr>checks := Suc (checks r), incoming := drop 1 (incoming r), slept := Suc (slept r)\<rparr>"
  have later: "\<forall>k<n. \<not> reachedGoalWithTolerance (heard k ?r1 (heard 1 r s))"
  proof (intro allI impI)
    fix k assume "k < n"
    then have "\<not> reachedGoalWithTolerance (heard (Suc k) r s)"
      using Suc.prems by simp
    then show "\<not> reachedGoalWithTolerance (heard k ?r1 (heard 1 r s))"
      unfolding heard_Suc by (simp add: heard_def)
  qed
  have "wait_loop (Suc n) (s, r) = wait_loop n (heard 1 r s, ?r1)"
    using first by (simp add: rospy_sleep_eq)
  also have "\<dots> = (None, heard n ?r1 (heard 1 r s),
      ?r1\<lparr>incoming := drop n (incoming ?r1), slept := slept ?r1 + n, checks := checks ?r1 + n\<rparr>)"
    by (rule Suc.IH [OF later])
  also have "heard n ?r1 (heard 1 r s) = heard (Suc n) r s"
    unfolding heard_Suc by (simp add: heard_def)
  finally show ?case
    by (simp add: drop_Suc)
qed


lemma wait_loop_arrive:
  "k < n \<Longrightarrow> reachedGoalWithTolerance (heard k r s) \<Longrightarrow>
   (\<forall>j<k. \<not> reachedGoalWithTolerance (heard j r s)) \<Longrightarrow>
   wait_loop n (s, r) =
     (Some Next_Goal, (heard k r s)\<lparr>goal_idx := py_add (goal_idx s) (PyInt 1)\<rparr>,
      r\<lparr>incoming := drop k (incoming r), slept := slept r + k, checks := Suc (checks r + k)\<rparr>)"
proof (induction n arbitrary: k s r)
  case 0
  then show ?case by simp
next
  case (Suc n)
  show ?case
  proof (cases k)
    case 0
    then show ?thesis using Suc.prems by simp
  next
    case (Suc k')
    have first: "\<not> reachedGoalWithTolerance s"
      using Suc.prems(3) Suc by (metis heard_0 zero_less_Suc)
    let ?r1 = "r\<lparr>checks := Suc (checks r), incoming := drop 1 (incoming r), slept := Suc (slept r)\<rparr>"
    have shift: "heard j ?r1 (heard 1 r s) = heard (Suc j) r s" for j
      unfolding heard_Suc by (simp add: heard_def)
    have a: "k' < n" using Suc.prems(1) Suc by simp
    have b: "reachedGoalWithTolerance (heard k' ?r1 (heard 1 r s))"
      using Suc.prems(2) Suc by (simp only: shift)
    have c: "\<forall>j<k'. \<not> reachedGoalWithTolerance (heard j ?r1 (heard 1 r s))"
      using Suc.prems(3) Suc by (simp only: shift) simp
    have "wait_loop (Suc n) (s, r) = wait_loop n (heard 1 r s, ?r1)"
      using first by (simp add: rospy_sleep_eq)
    also have "\<dots> = (Some Next_Goal,
        (heard k' ?r1 (heard 1 r s))\<lparr>goal_idx := py_add (goal_idx (heard 1 r s)) (PyInt 1)\<rparr>,
        ?r1\<lparr>incoming := drop k' (incoming ?r1), slept := slept ?r1 + k',
             checks := Suc (checks ?r1 + k')\<rparr>)"
      by (rule Suc.IH [OF a b c])
    finally have "wait_loop (Suc n) (s, r) = (Some Next_Goal,
        (heard (Suc k') r s)\<lparr>goal_idx := py_add (goal_idx (heard 1 r s)) (PyInt 1)\<rparr>,
        ?r1\<lparr>incoming := drop k' (incoming ?r1), slept := slept ?r1 + k',
             checks := Suc (checks ?r1 + k')\<rparr>)"
      unfolding shift .
    then show ?thesis
      using Suc by (simp add: drop_Suc goal_idx_heard)
  qed
qed

lemma poseCallback_goal:
  "poseCallback m (s\<lparr>goal_x_m := a, goal_y_m := b, goal_yaw_rad := c\<rparr>) =
   (poseCallback m s)\<lparr>goal_x_m := a, goal_y_m := b, goal_yaw_rad := c\<rparr>"
  by (simp add: poseCallback_def)

lemma fold_poseCallback_goal:
  "fold poseCallback ms (s\<lparr>goal_x_m := a, goal_y_m := b, goal_yaw_rad := c\<rparr>) =
   (fold poseCallback ms s)\<lparr>goal_x_m := a, goal_y_m := b, goal_yaw_rad := c\<rparr>"
  by (induction ms arbitrary: s) (simp_all add: poseCallback_goal)

lemma fold_poseCallback_fields [simp]:
  "mission_data (fold poseCallback ms s) = mission_data s"
  "distance_to_goal_tolerance_m (fold poseCallback ms s) = distance_to_goal_tolerance_m s"
  "angle_to_goal_tolerance_rad (fold poseCallback ms s) = angle_to_goal_tolerance_rad s"
  "goal_x_m (fold poseCallback ms s) = goal_x_m s"
  "goal_y_m (fold poseCallback ms s) = goal_y_m s"
  "goal_yaw_rad (fold poseCallback ms s) = goal_yaw_rad s"
  by (induction ms arbitrary: s) (simp_all add: poseCallback_def)

lemma heard_fields:
  "mission_data (heard k r s) = mission_data s"
  "distance_to_goal_tolerance_m (heard k r s) = distance_to_goal_tolerance_m s"
  "angle_to_goal_tolerance_rad (heard k r s) = angle_to_goal_tolerance_rad s"
  "goal_x_m (heard k r s) = goal_x_m s"
  "goal_y_m (heard k r s) = goal_y_m s"
  "goal_yaw_rad (heard k r s) = goal_yaw_rad s"
  by (simp_all add: heard_def)

lemma heard_setGoal:
  "heard k (r\<lparr>published := p\<rparr>)
     (s\<lparr>goal_x_m := Some (x_m g), goal_y_m := Some (y_m g), goal_yaw_rad := Some (yaw_rad g)\<rparr>) =
   (heard k r s)\<lparr>goal_x_m := Some (x_m g), goal_y_m := Some (y_m g),
                 goal_yaw_rad := Some (yaw_rad g)\<rparr>"
  by (simp add: heard_def fold_poseCallback_goal)

lemma reached_snapshot:
  "reachedGoalWithTolerance
     (s\<lparr>goal_x_m := Some (x_m g), goal_y_m := Some (y_m g), goal_yaw_rad := Some (yaw_rad g)\<rparr>) =
   arrival_condition g s"
  by (simp add: reachedGoalWithTolerance_def arrival_condition_def Let_def
      split: option.splits)

lemma setGoal_eq:
  "setGoal (x_m g) (y_m g) (yaw_rad g) (s, r) =
     (s\<lparr>goal_x_m := Some (x_m g), goal_y_m := Some (y_m g), goal_yaw_rad := Some (yaw_rad g)\<rparr>,
      r\<lparr>published := published r @ [goal_msg g]\<rparr>)"
  by (simp add: setGoal_def goal_msg_def)

lemma countdown_arrives:
  assumes "k < 4"
    and "arrival_condition g (heard k r s)"
    and "\<forall>j<k. \<not> arrival_condition g (heard j r s)"
  shows "wait_loop 4 (setGoal (x_m g) (y_m g) (yaw_rad g) (s, r)) =
     (Some Next_Goal,
      (heard k r s)\<lparr>goal_x_m := Some (x_m g), goal_y_m := Some (y_m g),
                    goal_yaw_rad := Some (yaw_rad g),
                    goal_idx := py_add (goal_idx s) (PyInt 1)\<rparr>,
      r\<lparr>published := published r @ [goal_msg g], incoming := drop k (incoming r),
        slept := slept r + k, checks := Suc (checks r + k)\<rparr>)"
proof -
  let ?s0 = "s\<lparr>goal_x_m := Some (x_m g), goal_y_m := Some (y_m g), goal_yaw_rad := Some (yaw_rad g)\<rparr>"
  let ?r0 = "r\<lparr>published := published r @ [goal_msg g]\<rparr>"
  have h: "heard j ?r0 ?s0 = (heard j r s)\<lparr>goal_x_m := Some (x_m g), goal_y_m := Some (y_m g),
                 goal_yaw_rad := Some (yaw_rad g)\<rparr>" for j
    by (rule heard_setGoal)
  have a: "reachedGoalWithTolerance (heard k ?r0 ?s0)"
    using assms(2) by (simp only: h reached_snapshot)
  have b: "\<forall>j<k. \<not> reachedGoalWithTolerance (heard j ?r0 ?s0)"
    using assms(3) by (simp only: h reached_snapshot)
  have "wait_loop 4 (?s0, ?r0) =
     (Some Next_Goal, (heard k ?r0 ?s0)\<lparr>goal_idx := py_add (goal_idx ?s0) (PyInt 1)\<rparr>,
      ?r0\<lparr>incoming := drop k (incoming ?r0), slept := slept ?r0 + k, checks := Suc (checks ?r0 + k)\<rparr>)"
    by (rule wait_loop_arrive [OF assms(1) a b])
  then show ?thesis
    unfolding h setGoal_eq by simp
qed

lemma countdown_runs_out:
  assumes "\<forall>k<4. \<not> arrival_condition g (heard k r s)"
  shows "wait_loop 4 (setGoal (x_m g) (y_m g) (yaw_rad g) (s, r)) =
     (None,
      (heard 4 r s)\<lparr>goal_x_m := Some (x_m g), goal_y_m := Some (y_m g),
                    goal_yaw_rad := Some (yaw_rad g)\<rparr>,
      r\<lparr>published := published r @ [goal_msg g], incoming := drop 4 (incoming r),
        slept := slept r + 4, checks := checks r + 4\<rparr>)"
proof -
  let ?s0 = "s\<lparr>goal_x_m := Some (x_m g), goal_y_m := Some (y_m g), goal_yaw_rad := Some (yaw_rad g)\<rparr>"
  let ?r0 = "r\<lparr>published := published r @ [goal_msg g]\<rparr>"
  have h: "heard j ?r0 ?s0 = (heard j r s)\<lparr>goal_x_m := Some (x_m g), goal_y_m := Some (y_m g),
                 goal_yaw_rad := Some (yaw_rad g)\<rparr>" for j
    by (rule heard_setGoal)
  have b: "\<forall>j<4. \<not> reachedGoalWithTolerance (heard j ?r0 ?s0)"
    using assms by (simp only: h reached_snapshot)
  have "wait_loop 4 (?s0, ?r0) =
     (None, heard 4 ?r0 ?s0,
      ?r0\<lparr>incoming := drop 4 (incoming ?r0), slept := slept ?r0 + 4, checks := checks ?r0 + 4\<rparr>)"
    by (rule wait_loop_none [OF b])
  then show ?thesis
    unfolding h setGoal_eq by simp
qed

lemma no_estimate_not_reached:
  "estimated_x_m s = None \<or> estimated_y_m s = None \<or> estimated_yaw_rad s = None \<Longrightarrow>
   \<not> reachedGoalWithTolerance s"
  by (auto simp add: reachedGoalWithTolerance_def split: option.splits)

section \<open>The two ways an activation ends\<close>

text \<open>
  The subscript of line 61 raises for every object, so an activation either finds the
  index at or past the goal count and returns \<open>Completed\<close>, or leaves \<open>execute\<close> with
  \<open>TypeError\<close> before anything is published and before the countdown starts.
\<close>

lemma current_goal_raises: "current_goal s = Inl TypeError"
  by (cases "keys (mission_data s)") (simp add: current_goal_def)

lemma len_keys [simp]: "len (keys md) = length md"
  by (simp add: keys_def)

lemma execute_eq:
  "execute s r =
     (if py_ge (goal_idx s) (PyInt (int (length (mission_data s))))
      then (Inr Completed, s\<lparr>goal_idx := PyInt 0\<rparr>, r)
      else (Inl TypeError, s, r))"
  by (simp add: execute_def current_goal_raises)

lemma execute_completed:
  "py_ge (goal_idx s) (PyInt (int (length (mission_data s)))) \<Longrightarrow>
   execute s r = (Inr Completed, s\<lparr>goal_idx := PyInt 0\<rparr>, r)"
  by (simp add: execute_eq)

lemma execute_raised:
  "\<not> py_ge (goal_idx s) (PyInt (int (length (mission_data s)))) \<Longrightarrow>
   execute s r = (Inl TypeError, s, r)"
  by (simp add: execute_eq)


lemma execute_bounded:
  "checks (ros_of (execute s r)) \<le> checks r + 4 \<and> slept (ros_of (execute s r)) \<le> slept r + 4"
  by (simp add: execute_eq ros_of_def)

lemma execute_mission_data:
  "mission_data (mission_of (execute s r)) = mission_data s"
  by (simp add: execute_eq mission_of_def)





lemma only_index_and_snapshot:
  "u = v\<lparr>goal_idx := i, goal_x_m := a, goal_y_m := b, goal_yaw_rad := c\<rparr> \<Longrightarrow>
   \<exists>i gx gy gyaw. u = v\<lparr>goal_idx := i, goal_x_m := gx, goal_y_m := gy, goal_yaw_rad := gyaw\<rparr>"
  by blast

lemma heard_silent [simp]: "heard k silent s = s"
  by (simp add: heard_def silent_def)

section \<open>Claims about one activation\<close>

text \<open>
  Claim C1 says that an activation below the goal count returns \<open>Next Goal\<close> with the
  index raised by one as soon as a tick of the countdown finds the estimate within both
  tolerances of the active goal. The loop is written to do so (lemma
  \<open>countdown_arrives\<close>), but it is never reached. In the scenario the index is \<open>0\<close>, the
  mission has two goals, and the origin, which is goal \<open>G0\<close>, is reported during the
  first sleep, so the arrival condition holds at tick \<open>1\<close>; \<open>execute\<close> leaves with
  \<open>TypeError\<close> at the subscript \<open>keys()[goal_idx]\<close>, the index is still \<open>0\<close>, nothing
  was published and no check was made.
\<close>

theorem arrival_during_countdown_raises:
  "goal_idx (Mission_init scenario_goals) = PyInt 0 \<and>
   0 < int (length (mission_data (Mission_init scenario_goals))) \<and>
   arrival_condition (goal_at (mission_data (Mission_init scenario_goals)) 0)
     (heard 1 origin_in_first_sleep (Mission_init scenario_goals)) \<and>
   execute (Mission_init scenario_goals) origin_in_first_sleep =
     (Inl TypeError, Mission_init scenario_goals, origin_in_first_sleep) \<and>
   goal_idx (mission_of (execute (Mission_init scenario_goals) origin_in_first_sleep)) = PyInt 0 \<and>
   checks (ros_of (execute (Mission_init scenario_goals) origin_in_first_sleep)) = 0"
proof -
  have a: "goal_idx (Mission_init scenario_goals) = PyInt 0"
    by (simp add: Mission_init_def)
  have b: "0 < int (length (mission_data (Mission_init scenario_goals)))"
    by (simp add: Mission_init_def scenario_goals_def)
  have c: "arrival_condition (goal_at (mission_data (Mission_init scenario_goals)) 0)
     (heard 1 origin_in_first_sleep (Mission_init scenario_goals))"
    by (simp add: arrival_condition_def goal_at_def heard_def origin_in_first_sleep_def
        pose_origin_def poseCallback_def Mission_init_def scenario_goals_def)
  have d: "execute (Mission_init scenario_goals) origin_in_first_sleep =
     (Inl TypeError, Mission_init scenario_goals, origin_in_first_sleep)"
    by (rule execute_raised) (simp add: py_ge_def Mission_init_def scenario_goals_def)
  have e: "goal_idx (mission_of (execute (Mission_init scenario_goals) origin_in_first_sleep)) =
      PyInt 0"
    unfolding d by (simp add: mission_of_def a)
  have f: "checks (ros_of (execute (Mission_init scenario_goals) origin_in_first_sleep)) = 0"
    unfolding d by (simp add: ros_of_def origin_in_first_sleep_def)
  show ?thesis using a b c d e f by blast
qed

text \<open>
  Claim C10 says that an estimate already stored within both tolerances of the goal
  about to be published makes the activation return \<open>Next Goal\<close> after one check and no
  sleep. Here the origin has been reported before the activation starts and the goal at
  index \<open>0\<close> is the origin; \<open>execute\<close> leaves with \<open>TypeError\<close>, and the environment is
  as it was: no goal published, no check made.
\<close>

theorem stored_estimate_raises_before_publishing:
  "goal_idx (poseCallback pose_origin (Mission_init scenario_goals)) = PyInt 0 \<and>
   0 < int (length (mission_data (poseCallback pose_origin (Mission_init scenario_goals)))) \<and>
   arrival_condition
     (goal_at (mission_data (poseCallback pose_origin (Mission_init scenario_goals))) 0)
     (poseCallback pose_origin (Mission_init scenario_goals)) \<and>
   execute (poseCallback pose_origin (Mission_init scenario_goals)) silent =
     (Inl TypeError, poseCallback pose_origin (Mission_init scenario_goals), silent) \<and>
   published (ros_of (execute (poseCallback pose_origin (Mission_init scenario_goals)) silent)) = []"
proof -
  let ?s = "poseCallback pose_origin (Mission_init scenario_goals)"
  have a: "goal_idx ?s = PyInt 0"
    by (simp add: Mission_init_def poseCallback_def)
  have b: "0 < int (length (mission_data ?s))"
    by (simp add: Mission_init_def scenario_goals_def poseCallback_def)
  have c: "arrival_condition (goal_at (mission_data ?s) 0) ?s"
    by (simp add: arrival_condition_def goal_at_def pose_origin_def poseCallback_def
        Mission_init_def scenario_goals_def)
  have d: "execute ?s silent = (Inl TypeError, ?s, silent)"
    by (rule execute_raised)
      (simp add: py_ge_def Mission_init_def scenario_goals_def poseCallback_def)
  have e: "published (ros_of (execute ?s silent)) = []"
    unfolding d by (simp add: ros_of_def silent_def)
  show ?thesis using a b c d e by blast
qed

text \<open>
  Claim C2 says that an activation at index \<open>0\<close> in which no tick satisfies the arrival
  condition returns \<open>Aborted\<close> once the countdown is spent. Here the index is \<open>0\<close>, the
  mission has a first goal, and no estimate is ever received, so the arrival condition
  holds at none of the four ticks; \<open>execute\<close> leaves with \<open>TypeError\<close> instead of
  returning \<open>Aborted\<close>, without a single sleep.
\<close>

theorem first_goal_without_feedback_raises:
  "goal_idx (Mission_init scenario_goals) = PyInt 0 \<and>
   0 < length (mission_data (Mission_init scenario_goals)) \<and>
   \<not> arrival_condition (goal_at (mission_data (Mission_init scenario_goals)) 0)
       (heard 0 silent (Mission_init scenario_goals)) \<and>
   \<not> arrival_condition (goal_at (mission_data (Mission_init scenario_goals)) 0)
       (heard 1 silent (Mission_init scenario_goals)) \<and>
   \<not> arrival_condition (goal_at (mission_data (Mission_init scenario_goals)) 0)
       (heard 2 silent (Mission_init scenario_goals)) \<and>
   \<not> arrival_condition (goal_at (mission_data (Mission_init scenario_goals)) 0)
       (heard 3 silent (Mission_init scenario_goals)) \<and>
   result_of (execute (Mission_init scenario_goals) silent) = Inl TypeError \<and>
   result_of (execute (Mission_init scenario_goals) silent) \<noteq> Inr Aborted \<and>
   slept (ros_of (execute (Mission_init scenario_goals) silent)) = 0"
proof -
  let ?s = "Mission_init scenario_goals"
  have a: "goal_idx ?s = PyInt 0"
    by (simp add: Mission_init_def)
  have b: "0 < length (mission_data ?s)"
    by (simp add: Mission_init_def scenario_goals_def)
  have c: "\<not> arrival_condition (goal_at (mission_data ?s) 0) (heard k silent ?s)" for k
    by (simp add: arrival_condition_def Mission_init_def)
  have d: "execute ?s silent = (Inl TypeError, ?s, silent)"
    by (rule execute_raised) (simp add: py_ge_def Mission_init_def scenario_goals_def)
  have e: "result_of (execute ?s silent) = Inl TypeError"
    "result_of (execute ?s silent) \<noteq> Inr Aborted"
    "slept (ros_of (execute ?s silent)) = 0"
    unfolding d by (simp_all add: result_of_def ros_of_def silent_def)
  show ?thesis using a b c e by blast
qed





text \<open>
  Claim C5. If the index lies between \<open>0\<close> and the goal count before an activation, it
  does so afterwards. An activation that returns either raises the index by one, and
  then only from a value below the goal count, or leaves it at zero; from the goal
  count itself the index goes back to the integer \<open>0\<close>. And the activation returns
  \<open>Completed\<close> exactly when the index it starts from equals the goal count.
\<close>

theorem index_stays_in_range:
  assumes "0 \<le> num_of (goal_idx s)"
    and "num_of (goal_idx s) \<le> real (length (mission_data s))"
  shows "0 \<le> num_of (goal_idx (mission_of (execute s r))) \<and>
         num_of (goal_idx (mission_of (execute s r))) \<le>
           real (length (mission_data (mission_of (execute s r)))) \<and>
         (\<not> isl (result_of (execute s r)) \<longrightarrow>
            (num_of (goal_idx (mission_of (execute s r))) = num_of (goal_idx s) + 1 \<and>
             num_of (goal_idx s) < real (length (mission_data s))) \<or>
            goal_idx (mission_of (execute s r)) = PyInt 0 \<or>
            goal_idx (mission_of (execute s r)) = PyFloat 0) \<and>
         (real (length (mission_data s)) \<le> num_of (goal_idx s) \<longrightarrow>
            goal_idx (mission_of (execute s r)) = PyInt 0) \<and>
         (result_of (execute s r) = Inr Completed \<longleftrightarrow>
            num_of (goal_idx s) = real (length (mission_data s)))"
proof (cases "py_ge (goal_idx s) (PyInt (int (length (mission_data s))))")
  case True
  then have "execute s r = (Inr Completed, s\<lparr>goal_idx := PyInt 0\<rparr>, r)"
    by (rule execute_completed)
  then show ?thesis
    using assms True by (simp add: mission_of_def result_of_def py_ge_def)
next
  case False
  then have "execute s r = (Inl TypeError, s, r)"
    by (rule execute_raised)
  then show ?thesis
    using assms False by (simp add: mission_of_def result_of_def py_ge_def)
qed

theorem index_stays_in_range_witness:
  "(0 \<le> num_of (goal_idx ((Mission_init scenario_goals)\<lparr>goal_idx := PyInt 1\<rparr>)) \<and>
    num_of (goal_idx ((Mission_init scenario_goals)\<lparr>goal_idx := PyInt 1\<rparr>)) \<le>
      real (length (mission_data ((Mission_init scenario_goals)\<lparr>goal_idx := PyInt 1\<rparr>))) \<and>
    num_of (goal_idx (mission_of
      (execute ((Mission_init scenario_goals)\<lparr>goal_idx := PyInt 1\<rparr>) silent))) \<le> 2) \<and>
   (0 \<le> num_of (goal_idx ((Mission_init scenario_goals)\<lparr>goal_idx := PyInt 2\<rparr>)) \<and>
    num_of (goal_idx ((Mission_init scenario_goals)\<lparr>goal_idx := PyInt 2\<rparr>)) \<le>
      real (length (mission_data ((Mission_init scenario_goals)\<lparr>goal_idx := PyInt 2\<rparr>))) \<and>
    real (length (mission_data ((Mission_init scenario_goals)\<lparr>goal_idx := PyInt 2\<rparr>))) \<le>
      num_of (goal_idx ((Mission_init scenario_goals)\<lparr>goal_idx := PyInt 2\<rparr>)) \<and>
    \<not> isl (result_of (execute ((Mission_init scenario_goals)\<lparr>goal_idx := PyInt 2\<rparr>) silent)) \<and>
    goal_idx (mission_of
      (execute ((Mission_init scenario_goals)\<lparr>goal_idx := PyInt 2\<rparr>) silent)) = PyInt 0 \<and>
    result_of (execute ((Mission_init scenario_goals)\<lparr>goal_idx := PyInt 2\<rparr>) silent) =
      Inr Completed)"
proof -
  let ?s1 = "(Mission_init scenario_goals)\<lparr>goal_idx := PyInt 1\<rparr>"
  let ?s2 = "(Mission_init scenario_goals)\<lparr>goal_idx := PyInt 2\<rparr>"
  have a1: "0 \<le> num_of (goal_idx ?s1)" by simp
  have b1: "num_of (goal_idx ?s1) \<le> real (length (mission_data ?s1))"
    by (simp add: Mission_init_def scenario_goals_def)
  have len1: "length (mission_data (mission_of (execute ?s1 silent))) = 2"
    by (simp add: execute_mission_data Mission_init_def scenario_goals_def)
  have d1: "num_of (goal_idx (mission_of (execute ?s1 silent))) \<le> 2"
    using index_stays_in_range [OF a1 b1, of silent] len1 by simp
  have a2: "0 \<le> num_of (goal_idx ?s2)" by simp
  have b2: "num_of (goal_idx ?s2) \<le> real (length (mission_data ?s2))"
    by (simp add: Mission_init_def scenario_goals_def)
  have c2: "real (length (mission_data ?s2)) \<le> num_of (goal_idx ?s2)"
    by (simp add: Mission_init_def scenario_goals_def)
  have e2: "num_of (goal_idx ?s2) = real (length (mission_data ?s2))"
    using b2 c2 by (rule antisym)
  have d2: "goal_idx (mission_of (execute ?s2 silent)) = PyInt 0 \<and>
            result_of (execute ?s2 silent) = Inr Completed"
    using index_stays_in_range [OF a2 b2, of silent] c2 e2 by blast
  then have f2: "\<not> isl (result_of (execute ?s2 silent))" by simp
  show ?thesis using a1 b1 d1 a2 b2 c2 f2 d2 by blast
qed

text \<open>
  Claim C6 says that a missing estimate makes the arrival check answer \<open>False\<close> rather
  than raise, and that an activation without feedback spends the whole countdown just
  as one whose feedback never satisfies the tolerances does. The first half holds of
  \<open>reachedGoalWithTolerance\<close> (lemma \<open>no_estimate_not_reached\<close>), and the loop is written
  for the second (lemma \<open>countdown_runs_out\<close>). But for a mission of one goal, five
  metres ahead, the activation without any feedback and the activation whose estimate
  stays at the origin both leave \<open>execute\<close> with \<open>TypeError\<close> before the first check:
  neither spends a single tick of the countdown.
\<close>

theorem missing_feedback_run_raises:
  "estimated_x_m (Mission_init [(''G0'', \<lparr>x_m = 5, y_m = 0, yaw_rad = 0\<rparr>)]) = None \<and>
   \<not> reachedGoalWithTolerance
       (fst (setGoal 5 0 0 (Mission_init [(''G0'', \<lparr>x_m = 5, y_m = 0, yaw_rad = 0\<rparr>)], silent))) \<and>
   \<not> reachedGoalWithTolerance
       (fst (setGoal 5 0 0
          (poseCallback pose_origin (Mission_init [(''G0'', \<lparr>x_m = 5, y_m = 0, yaw_rad = 0\<rparr>)]),
           silent))) \<and>
   result_of (execute (Mission_init [(''G0'', \<lparr>x_m = 5, y_m = 0, yaw_rad = 0\<rparr>)]) silent) =
     Inl TypeError \<and>
   slept (ros_of (execute (Mission_init [(''G0'', \<lparr>x_m = 5, y_m = 0, yaw_rad = 0\<rparr>)]) silent)) = 0 \<and>
   checks (ros_of (execute (Mission_init [(''G0'', \<lparr>x_m = 5, y_m = 0, yaw_rad = 0\<rparr>)]) silent)) = 0 \<and>
   result_of
     (execute (poseCallback pose_origin (Mission_init [(''G0'', \<lparr>x_m = 5, y_m = 0, yaw_rad = 0\<rparr>)]))
        silent) = Inl TypeError \<and>
   slept (ros_of
     (execute (poseCallback pose_origin (Mission_init [(''G0'', \<lparr>x_m = 5, y_m = 0, yaw_rad = 0\<rparr>)]))
        silent)) = 0"
proof -
  let ?s = "Mission_init [(''G0'', \<lparr>x_m = 5, y_m = 0, yaw_rad = 0\<rparr>)]"
  let ?p = "poseCallback pose_origin ?s"
  have a: "estimated_x_m ?s = None"
    by (simp add: Mission_init_def)
  have b: "\<not> reachedGoalWithTolerance (fst (setGoal 5 0 0 (?s, silent)))"
    by (rule no_estimate_not_reached) (simp add: setGoal_def Mission_init_def)
  have c: "\<not> reachedGoalWithTolerance (fst (setGoal 5 0 0 (?p, silent)))"
    by (simp add: reachedGoalWithTolerance_def setGoal_def poseCallback_def pose_origin_def
        Mission_init_def sqrt_le_iff_sq)
  have d: "execute ?s silent = (Inl TypeError, ?s, silent)"
    by (rule execute_raised) (simp add: py_ge_def Mission_init_def)
  have e: "execute ?p silent = (Inl TypeError, ?p, silent)"
    by (rule execute_raised) (simp add: py_ge_def Mission_init_def poseCallback_def)
  have f: "result_of (execute ?s silent) = Inl TypeError"
    "slept (ros_of (execute ?s silent)) = 0"
    "checks (ros_of (execute ?s silent)) = 0"
    unfolding d by (simp_all add: result_of_def ros_of_def silent_def)
  have g: "result_of (execute ?p silent) = Inl TypeError"
    "slept (ros_of (execute ?p silent)) = 0"
    unfolding e by (simp_all add: result_of_def ros_of_def silent_def)
  show ?thesis using a b c f g by blast
qed

text \<open>
  Claim C7 says that every activation ends, after at most four arrival checks, with
  one of the three outcomes. Every activation does end within four checks and four
  sleeps (lemma \<open>execute_bounded\<close>), but by lemma \<open>execute_two_ends\<close> it ends either
  with \<open>Completed\<close> or with \<open>TypeError\<close>. The first activation of a mission with one goal
  is of the second kind: it makes no check, takes no sleep, and returns no outcome.
\<close>

theorem first_activation_returns_no_outcome:
  "goal_idx (Mission_init [(''start'', \<lparr>x_m = 0, y_m = 0, yaw_rad = 0\<rparr>)]) = PyInt 0 \<and>
   length (mission_data (Mission_init [(''start'', \<lparr>x_m = 0, y_m = 0, yaw_rad = 0\<rparr>)])) = 1 \<and>
   result_of (execute (Mission_init [(''start'', \<lparr>x_m = 0, y_m = 0, yaw_rad = 0\<rparr>)])
                origin_in_first_sleep) = Inl TypeError \<and>
   isl (result_of (execute (Mission_init [(''start'', \<lparr>x_m = 0, y_m = 0, yaw_rad = 0\<rparr>)])
                origin_in_first_sleep)) \<and>
   checks (ros_of (execute (Mission_init [(''start'', \<lparr>x_m = 0, y_m = 0, yaw_rad = 0\<rparr>)])
                origin_in_first_sleep)) = 0 \<and>
   slept (ros_of (execute (Mission_init [(''start'', \<lparr>x_m = 0, y_m = 0, yaw_rad = 0\<rparr>)])
                origin_in_first_sleep)) = 0"
proof -
  let ?s = "Mission_init [(''start'', \<lparr>x_m = 0, y_m = 0, yaw_rad = 0\<rparr>)]"
  have a: "goal_idx ?s = PyInt 0" "length (mission_data ?s) = 1"
    by (simp_all add: Mission_init_def)
  have d: "execute ?s origin_in_first_sleep = (Inl TypeError, ?s, origin_in_first_sleep)"
    by (rule execute_raised) (simp add: py_ge_def Mission_init_def)
  have e: "result_of (execute ?s origin_in_first_sleep) = Inl TypeError"
    "isl (result_of (execute ?s origin_in_first_sleep))"
    "checks (ros_of (execute ?s origin_in_first_sleep)) = 0"
    "slept (ros_of (execute ?s origin_in_first_sleep)) = 0"
    unfolding d by (simp_all add: result_of_def ros_of_def origin_in_first_sleep_def)
  show ?thesis using a e by blast
qed

text \<open>
  Claim C8. After \<open>setGoal x y h\<close> the three snapshot attributes hold exactly \<open>x\<close>, \<open>y\<close>
  and \<open>h\<close>, the values of the message just published, and they still do after any
  number of sleeps. The arrival check made then is the arrival condition for that
  snapshot, and it does not read the goal list or the goal index: replacing both leaves
  its answer unchanged.
\<close>

theorem check_reads_the_published_snapshot:
  "goal_x_m (fst (setGoal x y h (s, r))) = Some x \<and>
   goal_y_m (fst (setGoal x y h (s, r))) = Some y \<and>
   goal_yaw_rad (fst (setGoal x y h (s, r))) = Some h \<and>
   published (snd (setGoal x y h (s, r))) =
     published r @
       [\<lparr>frame_id = ''world'', position_x = x, position_y = y, position_z = 0, yaw = h\<rparr>] \<and>
   goal_x_m (heard k r1 (fst (setGoal x y h (s, r)))) = Some x \<and>
   goal_y_m (heard k r1 (fst (setGoal x y h (s, r)))) = Some y \<and>
   goal_yaw_rad (heard k r1 (fst (setGoal x y h (s, r)))) = Some h \<and>
   reachedGoalWithTolerance (heard k r1 (fst (setGoal x y h (s, r)))) =
     arrival_condition \<lparr>x_m = x, y_m = y, yaw_rad = h\<rparr> (heard k r1 s) \<and>
   reachedGoalWithTolerance
     ((heard k r1 (fst (setGoal x y h (s, r))))\<lparr>mission_data := md, goal_idx := j\<rparr>) =
     reachedGoalWithTolerance (heard k r1 (fst (setGoal x y h (s, r))))"
proof -
  let ?g = "\<lparr>x_m = x, y_m = y, yaw_rad = h\<rparr>"
  have sg: "fst (setGoal x y h (s, r)) =
      s\<lparr>goal_x_m := Some (x_m ?g), goal_y_m := Some (y_m ?g), goal_yaw_rad := Some (yaw_rad ?g)\<rparr>"
    by (simp add: setGoal_def)
  have pub: "published (snd (setGoal x y h (s, r))) =
     published r @
       [\<lparr>frame_id = ''world'', position_x = x, position_y = y, position_z = 0, yaw = h\<rparr>]"
    by (simp add: setGoal_def)
  have hs: "heard k r1 (fst (setGoal x y h (s, r))) =
      (heard k r1 s)\<lparr>goal_x_m := Some (x_m ?g), goal_y_m := Some (y_m ?g),
                     goal_yaw_rad := Some (yaw_rad ?g)\<rparr>"
    unfolding sg heard_def by (rule fold_poseCallback_goal)
  have chk: "reachedGoalWithTolerance (heard k r1 (fst (setGoal x y h (s, r)))) =
     arrival_condition ?g (heard k r1 s)"
    unfolding hs by (rule reached_snapshot)
  have indep: "reachedGoalWithTolerance (u\<lparr>mission_data := md, goal_idx := j\<rparr>) =
     reachedGoalWithTolerance u" for u
    by (simp add: reachedGoalWithTolerance_def Let_def split: option.splits)
  have f: "goal_x_m (heard k r1 (fst (setGoal x y h (s, r)))) = Some x"
    "goal_y_m (heard k r1 (fst (setGoal x y h (s, r)))) = Some y"
    "goal_yaw_rad (heard k r1 (fst (setGoal x y h (s, r)))) = Some h"
    unfolding hs by simp_all
  have g0: "goal_x_m (fst (setGoal x y h (s, r))) = Some x"
    "goal_y_m (fst (setGoal x y h (s, r))) = Some y"
    "goal_yaw_rad (fst (setGoal x y h (s, r))) = Some h"
    unfolding sg by simp_all
  show ?thesis using g0 pub f chk indep by blast
qed

text \<open>
  Claim C9. An activation leaves the goal list and both tolerances as they were. The
  object it leaves is the object it started from, with the messages of the sleeps it
  took passed through the callback, changed by \<open>execute\<close> in nothing but the goal index
  and the three snapshot attributes.
\<close>

theorem execute_changes_only_index_and_snapshot:
  "mission_data (mission_of (execute s r)) = mission_data s \<and>
   distance_to_goal_tolerance_m (mission_of (execute s r)) = distance_to_goal_tolerance_m s \<and>
   angle_to_goal_tolerance_rad (mission_of (execute s r)) = angle_to_goal_tolerance_rad s \<and>
   (\<exists>i gx gy gyaw.
      mission_of (execute s r) =
        (heard (slept (ros_of (execute s r)) - slept r) r s)
          \<lparr>goal_idx := i, goal_x_m := gx, goal_y_m := gy, goal_yaw_rad := gyaw\<rparr>)"
proof (cases "py_ge (goal_idx s) (PyInt (int (length (mission_data s))))")
  case True
  then have ex: "execute s r = (Inr Completed, s\<lparr>goal_idx := PyInt 0\<rparr>, r)"
    by (rule execute_completed)
  have n: "slept (ros_of (execute s r)) - slept r = 0"
    using ex by (simp add: ros_of_def)
  have "mission_of (execute s r) =
      (heard 0 r s)\<lparr>goal_idx := PyInt 0, goal_x_m := goal_x_m s, goal_y_m := goal_y_m s,
        goal_yaw_rad := goal_yaw_rad s\<rparr>"
    using ex by (simp add: mission_of_def)
  from only_index_and_snapshot [OF this] show ?thesis
    unfolding n using ex by (simp add: mission_of_def)
next
  case False
  then have ex: "execute s r = (Inl TypeError, s, r)"
    by (rule execute_raised)
  have n: "slept (ros_of (execute s r)) - slept r = 0"
    using ex by (simp add: ros_of_def)
  have "mission_of (execute s r) =
      (heard 0 r s)\<lparr>goal_idx := goal_idx s, goal_x_m := goal_x_m s, goal_y_m := goal_y_m s,
        goal_yaw_rad := goal_yaw_rad s\<rparr>"
    using ex by (simp add: mission_of_def)
  from only_index_and_snapshot [OF this] show ?thesis
    unfolding n using ex by (simp add: mission_of_def)
qed

end
